theory Spec2Isabelle
  imports Main "HOL-Library.Word" "HOL-Library.Sublist"
begin

section \<open>The configuration header esp8266/config.h\<close>

text \<open>
  The header has no function. It is a sequence of preprocessor directives and of object
  definitions at namespace scope:
  \<^verbatim>\<open>
  #ifndef CONFIG_H
  #define CONFIG_H

  const char* WIFI_SSID = "YOUR_WIFI_SSID";
  const char* WIFI_PASSWORD = "YOUR_WIFI_PASSWORD";
  const char* SERVER_URL = "https://api.angler.com.ua";
  const char* DEVICE_TOKEN = "YOUR_DEVICE_TOKEN";

  const unsigned long HEARTBEAT_INTERVAL = 30000;
  const unsigned long WIFI_TIMEOUT = 30000;

  #define DEBUG_SERIAL 1

  #endif
  \<close>
  The model keeps the file as it is written, line by line, and gives the lines the meaning
  they have for a translation unit that includes the file.
\<close>

subsection \<open>Types, initialisers and lines\<close>

datatype base_type = CharT | UnsignedLongT

text \<open>
  A declared type with its qualifiers. \<open>Base q b\<close> is the type \<open>b\<close>, const-qualified iff
  \<open>q\<close>; \<open>Pointer q t\<close> is a pointer to \<open>t\<close>, and \<open>q\<close> says whether the pointer itself is
  const-qualified. So \<^verbatim>\<open>const char*\<close> is a pointer, not const, to const characters.
\<close>

datatype ctype = Base bool base_type | Pointer bool ctype

definition const_char_ptr :: ctype where
  "const_char_ptr = Pointer False (Base True CharT)"

definition const_unsigned_long :: ctype where
  "const_unsigned_long = Base True UnsignedLongT"

fun top_const :: "ctype \<Rightarrow> bool" where
  "top_const (Base q b) = q"
| "top_const (Pointer q t) = q"

text \<open>
  What stands to the right of \<^verbatim>\<open>=\<close> in a definition, or in the replacement list of a
  macro: a literal, or an identifier that names something declared elsewhere.
\<close>

datatype expr = StringLiteral string | IntegerLiteral int | Identifier string

fun identifiers :: "expr \<Rightarrow> string list" where
  "identifiers (StringLiteral s) = []"
| "identifiers (IntegerLiteral n) = []"
| "identifiers (Identifier x) = [x]"

datatype line =
    Ifndef string
  | Define string "expr list"
  | Endif
  | Definition ctype string expr

definition config_h :: "line list" where
  "config_h =
    [Ifndef ''CONFIG_H'',
     Define ''CONFIG_H'' [],
     Definition const_char_ptr ''WIFI_SSID'' (StringLiteral ''YOUR_WIFI_SSID''),
     Definition const_char_ptr ''WIFI_PASSWORD'' (StringLiteral ''YOUR_WIFI_PASSWORD''),
     Definition const_char_ptr ''SERVER_URL'' (StringLiteral ''https://api.angler.com.ua''),
     Definition const_char_ptr ''DEVICE_TOKEN'' (StringLiteral ''YOUR_DEVICE_TOKEN''),
     Definition const_unsigned_long ''HEARTBEAT_INTERVAL'' (IntegerLiteral 30000),
     Definition const_unsigned_long ''WIFI_TIMEOUT'' (IntegerLiteral 30000),
     Define ''DEBUG_SERIAL'' [IntegerLiteral 1],
     Endif]"

text \<open>The names a line mentions on its right-hand side.\<close>

fun initialiser_identifiers :: "line \<Rightarrow> string list" where
  "initialiser_identifiers (Ifndef m) = []"
| "initialiser_identifiers (Define m body) = concat (map identifiers body)"
| "initialiser_identifiers Endif = []"
| "initialiser_identifiers (Definition t n e) = identifiers e"

subsection \<open>Including the file\<close>

datatype error =
    RedefinedObject string
  | RedefinedMacro string
  | EndifWithoutIf
  | UnterminatedConditional
  | Undeclared string
  | AssignmentToConst string
  | TypeMismatch string

text \<open>
  A translation unit while it is read: the macros and the objects defined so far, in the
  order of their definition, and one entry per open conditional, \<open>True\<close> when its group
  is kept.
\<close>

record translation_unit =
  macros :: "(string \<times> expr list) list"
  objects :: "(string \<times> ctype \<times> expr) list"
  conds :: "bool list"

definition empty_unit :: translation_unit where
  "empty_unit = \<lparr>macros = [], objects = [], conds = []\<rparr>"

definition active :: "translation_unit \<Rightarrow> bool" where
  "active u = list_all (\<lambda>b. b) (conds u)"

text \<open>
  A line in a skipped group does nothing, except that conditionals still nest. Defining
  an object twice in one translation unit is an error, and so is defining a macro again
  with another replacement list.
\<close>

fun process_line :: "line \<Rightarrow> translation_unit \<Rightarrow> error + translation_unit" where
  "process_line (Ifndef m) u =
     Inr (u\<lparr>conds := (active u \<and> map_of (macros u) m = None) # conds u\<rparr>)"
| "process_line Endif u =
     (case conds u of
        [] \<Rightarrow> Inl EndifWithoutIf
      | c # cs \<Rightarrow> Inr (u\<lparr>conds := cs\<rparr>))"
| "process_line (Define m body) u =
     (if active u then
        (case map_of (macros u) m of
           None \<Rightarrow> Inr (u\<lparr>macros := macros u @ [(m, body)]\<rparr>)
         | Some old \<Rightarrow> if old = body then Inr u else Inl (RedefinedMacro m))
      else Inr u)"
| "process_line (Definition t n e) u =
     (if active u then
        (case map_of (objects u) n of
           None \<Rightarrow> Inr (u\<lparr>objects := objects u @ [(n, t, e)]\<rparr>)
         | Some d \<Rightarrow> Inl (RedefinedObject n))
      else Inr u)"

fun process_lines :: "line list \<Rightarrow> translation_unit \<Rightarrow> error + translation_unit" where
  "process_lines [] u = Inr u"
| "process_lines (l # ls) u =
     (case process_line l u of
        Inl e \<Rightarrow> Inl e
      | Inr u' \<Rightarrow> process_lines ls u')"

text \<open>
  An \<^verbatim>\<open>#include\<close> of the file: skipped with the group it stands in; otherwise the file is
  read with its own conditionals, which must be closed at its end.
\<close>

definition include_file :: "line list \<Rightarrow> translation_unit \<Rightarrow> error + translation_unit" where
  "include_file ls u =
     (if active u then
        (case process_lines ls (u\<lparr>conds := []\<rparr>) of
           Inl e \<Rightarrow> Inl e
         | Inr u' \<Rightarrow>
             if conds u' = [] then Inr (u'\<lparr>conds := conds u\<rparr>)
             else Inl UnterminatedConditional)
      else Inr u)"

text \<open>The translation unit of a consumer whose first line includes the header.\<close>

definition config_unit :: "error + translation_unit" where
  "config_unit = include_file config_h empty_unit"

definition macro_names :: "error + translation_unit \<Rightarrow> string list" where
  "macro_names r = (case r of Inl e \<Rightarrow> [] | Inr u \<Rightarrow> map fst (macros u))"

definition object_names :: "error + translation_unit \<Rightarrow> string list" where
  "object_names r = (case r of Inl e \<Rightarrow> [] | Inr u \<Rightarrow> map fst (objects u))"

definition defined_names :: "error + translation_unit \<Rightarrow> string list" where
  "defined_names r = macro_names r @ object_names r"

definition names_of_type :: "error + translation_unit \<Rightarrow> ctype \<Rightarrow> string list" where
  "names_of_type r t =
     (case r of
        Inl e \<Rightarrow> []
      | Inr u \<Rightarrow> map fst (filter (\<lambda>d. fst (snd d) = t) (objects u)))"

subsection \<open>Values\<close>

text \<open>
  \<^verbatim>\<open>unsigned long\<close> has 32 bits on the ESP8266. A value of pointer type is the string
  literal it points to, or the null pointer.
\<close>

datatype cvalue = StringValue string | NullPointer | ULongValue "32 word"

fun initial_value :: "ctype \<Rightarrow> expr \<Rightarrow> cvalue option" where
  "initial_value (Pointer q (Base True CharT)) (StringLiteral s) = Some (StringValue s)"
| "initial_value (Pointer q t) (IntegerLiteral n) = (if n = 0 then Some NullPointer else None)"
| "initial_value (Base q UnsignedLongT) (IntegerLiteral n) = Some (ULongValue (word_of_int n))"
| "initial_value t e = None"

definition object_value :: "error + translation_unit \<Rightarrow> string \<Rightarrow> cvalue option" where
  "object_value r n =
     (case r of
        Inl e \<Rightarrow> None
      | Inr u \<Rightarrow>
          (case map_of (objects u) n of
             None \<Rightarrow> None
           | Some (t, e) \<Rightarrow> initial_value t e))"

definition string_constant :: "string \<Rightarrow> string option" where
  "string_constant n =
     (case object_value config_unit n of
        Some (StringValue s) \<Rightarrow> Some s
      | _ \<Rightarrow> None)"

definition ulong_constant :: "string \<Rightarrow> 32 word option" where
  "ulong_constant n =
     (case object_value config_unit n of
        Some (ULongValue w) \<Rightarrow> Some w
      | _ \<Rightarrow> None)"

text \<open>The value of a macro used as an integer: its replacement list is one integer literal.\<close>

definition macro_constant :: "string \<Rightarrow> int option" where
  "macro_constant n =
     (case config_unit of
        Inl e \<Rightarrow> None
      | Inr u \<Rightarrow>
          (case map_of (macros u) n of
             Some [IntegerLiteral k] \<Rightarrow> Some k
           | _ \<Rightarrow> None))"

definition WIFI_SSID :: "string option" where
  "WIFI_SSID = string_constant ''WIFI_SSID''"

definition WIFI_PASSWORD :: "string option" where
  "WIFI_PASSWORD = string_constant ''WIFI_PASSWORD''"

definition SERVER_URL :: "string option" where
  "SERVER_URL = string_constant ''SERVER_URL''"

definition DEVICE_TOKEN :: "string option" where
  "DEVICE_TOKEN = string_constant ''DEVICE_TOKEN''"

definition HEARTBEAT_INTERVAL :: "32 word option" where
  "HEARTBEAT_INTERVAL = ulong_constant ''HEARTBEAT_INTERVAL''"

definition WIFI_TIMEOUT :: "32 word option" where
  "WIFI_TIMEOUT = ulong_constant ''WIFI_TIMEOUT''"

definition DEBUG_SERIAL :: "int option" where
  "DEBUG_SERIAL = macro_constant ''DEBUG_SERIAL''"

definition macro_body :: "error + translation_unit \<Rightarrow> string \<Rightarrow> expr list option" where
  "macro_body r n = (case r of Inl e \<Rightarrow> None | Inr u \<Rightarrow> map_of (macros u) n)"

subsection \<open>Assignments to the declared objects\<close>

text \<open>
  The header has no statement of its own. Whether a declared object can change after its
  definition is decided by the type it is declared with: an assignment to an object is
  accepted by the compiler unless the object's type is const-qualified at the top. The
  model below covers exactly this: assignment statements of a value to a declared name,
  executed after the inclusion, on a store that holds every object with its type and its
  current value. Preprocessor directives of the including program and writes through a
  pointer are outside it.
\<close>

type_synonym store = "(string \<times> ctype \<times> cvalue) list"

fun elaborate :: "(string \<times> ctype \<times> expr) list \<Rightarrow> store option" where
  "elaborate [] = Some []"
| "elaborate ((n, t, e) # ds) =
     (case initial_value t e of
        None \<Rightarrow> None
      | Some v \<Rightarrow>
          (case elaborate ds of
             None \<Rightarrow> None
           | Some s \<Rightarrow> Some ((n, t, v) # s)))"

definition initial_store :: "error + translation_unit \<Rightarrow> store option" where
  "initial_store r = (case r of Inl e \<Rightarrow> None | Inr u \<Rightarrow> elaborate (objects u))"

definition config_store :: store where
  "config_store = (case initial_store config_unit of None \<Rightarrow> [] | Some s \<Rightarrow> s)"

fun has_type :: "ctype \<Rightarrow> cvalue \<Rightarrow> bool" where
  "has_type (Pointer q (Base True CharT)) (StringValue s) = True"
| "has_type (Pointer q t) NullPointer = True"
| "has_type (Base q UnsignedLongT) (ULongValue w) = True"
| "has_type t v = False"

datatype stmt = Assign string cvalue

fun update_store :: "string \<Rightarrow> cvalue \<Rightarrow> store \<Rightarrow> store" where
  "update_store x v [] = []"
| "update_store x v ((n, t, w) # s) =
     (if n = x then (n, t, v) # s else (n, t, w) # update_store x v s)"

fun exec :: "stmt \<Rightarrow> store \<Rightarrow> error + store" where
  "exec (Assign x v) s =
     (case map_of s x of
        None \<Rightarrow> Inl (Undeclared x)
      | Some (t, w) \<Rightarrow>
          if top_const t then Inl (AssignmentToConst x)
          else if has_type t v then Inr (update_store x v s)
          else Inl (TypeMismatch x))"

fun run :: "stmt list \<Rightarrow> store \<Rightarrow> error + store" where
  "run [] s = Inr s"
| "run (c # cs) s =
     (case exec c s of
        Inl e \<Rightarrow> Inl e
      | Inr s' \<Rightarrow> run cs s')"

definition read :: "store \<Rightarrow> string \<Rightarrow> cvalue option" where
  "read s x = map_option snd (map_of s x)"

text \<open>
  What reading \<open>x\<close> yields after the assignments \<open>prog\<close>, when each of them is accepted.
\<close>

definition read_after :: "stmt list \<Rightarrow> string \<Rightarrow> cvalue option" where
  "read_after prog x =
     (case run prog config_store of
        Inl e \<Rightarrow> None
      | Inr s \<Rightarrow> read s x)"

subsection \<open>Well-formed addresses\<close>

text \<open>
  A check for the addresses of the form \<^verbatim>\<open>scheme://host/path\<close>, after RFC 3986: the scheme
  is a letter followed by letters, digits, \<^verbatim>\<open>+\<close>, \<^verbatim>\<open>-\<close> and \<^verbatim>\<open>.\<close>; the host is a non-empty
  registered name of unreserved characters and sub-delimiters; the path is empty or
  starts with \<^verbatim>\<open>/\<close>. It accepts no user information, port, escape, query or fragment, so
  what it accepts is a URI with a scheme and a host, and it returns the three parts.
\<close>

definition is_alpha :: "char \<Rightarrow> bool" where
  "is_alpha c = (c \<in> set ''abcdefghijklmnopqrstuvwxyzABCDEFGHIJKLMNOPQRSTUVWXYZ'')"

definition is_digit :: "char \<Rightarrow> bool" where
  "is_digit c = (c \<in> set ''0123456789'')"

definition scheme_char :: "char \<Rightarrow> bool" where
  "scheme_char c = (is_alpha c \<or> is_digit c \<or> c \<in> set ''+-.'')"

definition reg_name_char :: "char \<Rightarrow> bool" where
  "reg_name_char c =
     (is_alpha c \<or> is_digit c \<or> c \<in> set ''-._~'' \<or> c \<in> set ''!$&()*+,;='' \<or> c = CHR 0x27)"

definition path_char :: "char \<Rightarrow> bool" where
  "path_char c = (reg_name_char c \<or> c \<in> set '':@/'')"

definition parse_uri :: "string \<Rightarrow> (string \<times> string \<times> string) option" where
  "parse_uri s =
     (case takeWhile (\<lambda>c. c \<noteq> CHR '':'') s of
        [] \<Rightarrow> None
      | c # cs \<Rightarrow>
          (let after = dropWhile (\<lambda>c. c \<noteq> CHR '':'') s;
               hier = drop 3 after;
               host = takeWhile (\<lambda>c. c \<noteq> CHR ''/'') hier;
               path = dropWhile (\<lambda>c. c \<noteq> CHR ''/'') hier
           in if is_alpha c \<and> list_all scheme_char cs \<and> take 3 after = ''://'' \<and>
                 host \<noteq> [] \<and> list_all reg_name_char host \<and> list_all path_char path
              then Some (c # cs, host, path)
              else None))"

section \<open>Properties\<close>

subsection \<open>What including the header defines\<close>

lemma config_unit_eq:
  "config_unit = Inr
     \<lparr>macros = [(''CONFIG_H'', []), (''DEBUG_SERIAL'', [IntegerLiteral 1])],
      objects =
        [(''WIFI_SSID'', const_char_ptr, StringLiteral ''YOUR_WIFI_SSID''),
         (''WIFI_PASSWORD'', const_char_ptr, StringLiteral ''YOUR_WIFI_PASSWORD''),
         (''SERVER_URL'', const_char_ptr, StringLiteral ''https://api.angler.com.ua''),
         (''DEVICE_TOKEN'', const_char_ptr, StringLiteral ''YOUR_DEVICE_TOKEN''),
         (''HEARTBEAT_INTERVAL'', const_unsigned_long, IntegerLiteral 30000),
         (''WIFI_TIMEOUT'', const_unsigned_long, IntegerLiteral 30000)],
      conds = []\<rparr>"
  by (simp add: config_unit_def include_file_def config_h_def empty_unit_def active_def)

lemma string_values:
  "WIFI_SSID = Some ''YOUR_WIFI_SSID''"
  "WIFI_PASSWORD = Some ''YOUR_WIFI_PASSWORD''"
  "SERVER_URL = Some ''https://api.angler.com.ua''"
  "DEVICE_TOKEN = Some ''YOUR_DEVICE_TOKEN''"
  by (simp_all add: WIFI_SSID_def WIFI_PASSWORD_def SERVER_URL_def DEVICE_TOKEN_def
      string_constant_def object_value_def config_unit_eq const_char_ptr_def)

lemma timing_values:
  "HEARTBEAT_INTERVAL = Some 30000"
  "WIFI_TIMEOUT = Some 30000"
  by (simp_all add: HEARTBEAT_INTERVAL_def WIFI_TIMEOUT_def ulong_constant_def
      object_value_def config_unit_eq const_unsigned_long_def)

lemma debug_value: "DEBUG_SERIAL = Some 1"
  by (simp add: DEBUG_SERIAL_def macro_constant_def config_unit_eq)

lemma config_store_eq:
  "config_store =
     [(''WIFI_SSID'', const_char_ptr, StringValue ''YOUR_WIFI_SSID''),
      (''WIFI_PASSWORD'', const_char_ptr, StringValue ''YOUR_WIFI_PASSWORD''),
      (''SERVER_URL'', const_char_ptr, StringValue ''https://api.angler.com.ua''),
      (''DEVICE_TOKEN'', const_char_ptr, StringValue ''YOUR_DEVICE_TOKEN''),
      (''HEARTBEAT_INTERVAL'', const_unsigned_long, ULongValue 30000),
      (''WIFI_TIMEOUT'', const_unsigned_long, ULongValue 30000)]"
  by (simp add: config_store_def initial_store_def config_unit_eq const_char_ptr_def
      const_unsigned_long_def)

subsection \<open>The include guard\<close>

text \<open>
  Once \<^verbatim>\<open>CONFIG_H\<close> is defined, including the header again changes nothing: every line
  between \<^verbatim>\<open>#ifndef\<close> and \<^verbatim>\<open>#endif\<close> is skipped.
\<close>

lemma include_guarded:
  assumes "active u" and "map_of (macros u) ''CONFIG_H'' = Some b"
  shows "include_file config_h u = Inr u"
  using assms by (simp add: include_file_def config_h_def active_def)

lemma include_twice:
  assumes "config_unit = Inr u"
  shows "include_file config_h u = Inr u"
proof -
  from assms have "conds u = []" and "map_of (macros u) ''CONFIG_H'' = Some []"
    unfolding config_unit_eq by auto
  then show ?thesis
    by (intro include_guarded) (simp_all add: active_def)
qed

text \<open>
  The guard is what makes this so: the same lines without \<^verbatim>\<open>#ifndef\<close> and \<^verbatim>\<open>#endif\<close>,
  read a second time, define \<^verbatim>\<open>WIFI_SSID\<close> again, which is an error.
\<close>

lemma without_guard_redefinition:
  assumes "config_unit = Inr u"
  shows "include_file (butlast (tl config_h)) u = Inl (RedefinedObject ''WIFI_SSID'')"
proof -
  from assms have "u = \<lparr>macros = [(''CONFIG_H'', []), (''DEBUG_SERIAL'', [IntegerLiteral 1])],
      objects =
        [(''WIFI_SSID'', const_char_ptr, StringLiteral ''YOUR_WIFI_SSID''),
         (''WIFI_PASSWORD'', const_char_ptr, StringLiteral ''YOUR_WIFI_PASSWORD''),
         (''SERVER_URL'', const_char_ptr, StringLiteral ''https://api.angler.com.ua''),
         (''DEVICE_TOKEN'', const_char_ptr, StringLiteral ''YOUR_DEVICE_TOKEN''),
         (''HEARTBEAT_INTERVAL'', const_unsigned_long, IntegerLiteral 30000),
         (''WIFI_TIMEOUT'', const_unsigned_long, IntegerLiteral 30000)],
      conds = []\<rparr>"
    unfolding config_unit_eq by simp
  then show ?thesis
    by (simp add: include_file_def config_h_def active_def)
qed

subsection \<open>Assignments leave const-qualified objects alone\<close>

text \<open>
  An assignment to a timing constant is rejected, and so is one of a value of the wrong
  type or to a name that is no object.
\<close>

lemma assign_to_timing_rejected:
  "exec (Assign ''HEARTBEAT_INTERVAL'' (ULongValue 1)) config_store =
     Inl (AssignmentToConst ''HEARTBEAT_INTERVAL'')"
  "exec (Assign ''WIFI_TIMEOUT'' (ULongValue 1)) config_store =
     Inl (AssignmentToConst ''WIFI_TIMEOUT'')"
  by (simp_all add: config_store_eq const_unsigned_long_def const_char_ptr_def)

lemma assign_wrong_type_rejected:
  "exec (Assign ''WIFI_SSID'' (ULongValue 1)) config_store = Inl (TypeMismatch ''WIFI_SSID'')"
  "exec (Assign ''DEBUG_SERIAL'' (ULongValue 0)) config_store = Inl (Undeclared ''DEBUG_SERIAL'')"
  by (simp_all add: config_store_eq const_unsigned_long_def const_char_ptr_def)

lemma update_store_other:
  "x \<noteq> y \<Longrightarrow> map_of (update_store x v s) y = map_of s y"
  by (induction x v s rule: update_store.induct) auto

lemma exec_keeps_const:
  assumes "exec c s = Inr s'" and "map_of s y = Some (t, w)" and "top_const t"
  shows "map_of s' y = Some (t, w)"
proof (cases c)
  case (Assign x v)
  show ?thesis
  proof (cases "x = y")
    case True
    with assms Assign show ?thesis by simp
  next
    case False
    with assms Assign show ?thesis
      by (auto simp: update_store_other split: option.splits if_splits)
  qed
qed

lemma run_keeps_const:
  "run prog s = Inr s' \<Longrightarrow> map_of s y = Some (t, w) \<Longrightarrow> top_const t \<Longrightarrow>
   map_of s' y = Some (t, w)"
proof (induction prog arbitrary: s)
  case Nil
  then show ?case by simp
next
  case (Cons c cs)
  from Cons.prems(1) obtain s1 where step: "exec c s = Inr s1" and rest: "run cs s1 = Inr s'"
    by (auto split: sum.splits)
  from exec_keeps_const [OF step Cons.prems(2) Cons.prems(3)]
  have "map_of s1 y = Some (t, w)" .
  from Cons.IH [OF rest this Cons.prems(3)] show ?case .
qed

text \<open>An accepted assignment changes the object it names and no other.\<close>

lemma exec_frame:
  assumes "exec c s = Inr s'" and "c = Assign x v" and "x \<noteq> y"
  shows "map_of s' y = map_of s y"
  using assms by (auto simp: update_store_other split: option.splits if_splits)

lemma run_frame:
  "run prog s = Inr s' \<Longrightarrow> y \<notin> set (map (\<lambda>c. case c of Assign x v \<Rightarrow> x) prog) \<Longrightarrow>
   read s' y = read s y"
proof (induction prog arbitrary: s)
  case Nil
  then show ?case by simp
next
  case (Cons c cs)
  from Cons.prems(1) obtain s1 where step: "exec c s = Inr s1" and rest: "run cs s1 = Inr s'"
    by (auto split: sum.splits)
  obtain x v where c: "c = Assign x v"
    by (cases c)
  with Cons.prems(2) have "x \<noteq> y" and tail: "y \<notin> set (map (\<lambda>c. case c of Assign x v \<Rightarrow> x) cs)"
    by auto
  from exec_frame [OF step c \<open>x \<noteq> y\<close>] have "read s1 y = read s y"
    by (simp add: read_def)
  with Cons.IH [OF rest tail] show ?case
    by simp
qed

text \<open>
  The two timing constants, const-qualified at the top, keep the value of their definition
  through every sequence of accepted assignments.
\<close>

lemma timing_constants_kept:
  assumes "run prog config_store = Inr s"
  shows "read s ''HEARTBEAT_INTERVAL'' = Some (ULongValue 30000) \<and>
         read s ''WIFI_TIMEOUT'' = Some (ULongValue 30000)"
proof -
  have c: "top_const const_unsigned_long"
    by (simp add: const_unsigned_long_def)
  have "map_of config_store ''HEARTBEAT_INTERVAL'' = Some (const_unsigned_long, ULongValue 30000)"
    by (simp add: config_store_eq)
  from run_keeps_const [OF assms this c]
  have hb: "read s ''HEARTBEAT_INTERVAL'' = Some (ULongValue 30000)"
    by (simp add: read_def)
  have "map_of config_store ''WIFI_TIMEOUT'' = Some (const_unsigned_long, ULongValue 30000)"
    by (simp add: config_store_eq)
  from run_keeps_const [OF assms this c]
  have wt: "read s ''WIFI_TIMEOUT'' = Some (ULongValue 30000)"
    by (simp add: read_def)
  from hb wt show ?thesis
    by simp
qed

text \<open>Each of the four string names accepts an assignment, and reads the new value after it.\<close>

lemma string_names_assignable:
  "read_after [Assign ''WIFI_SSID'' (StringValue ''a'')] ''WIFI_SSID'' = Some (StringValue ''a'')"
  "read_after [Assign ''WIFI_PASSWORD'' (StringValue ''b'')] ''WIFI_PASSWORD'' =
     Some (StringValue ''b'')"
  "read_after [Assign ''SERVER_URL'' (StringValue ''c'')] ''SERVER_URL'' = Some (StringValue ''c'')"
  "read_after [Assign ''DEVICE_TOKEN'' (StringValue ''d'')] ''DEVICE_TOKEN'' =
     Some (StringValue ''d'')"
  by (simp_all add: read_after_def read_def config_store_eq const_char_ptr_def)

subsection \<open>The address check rejects what is no address\<close>

lemma parse_uri_rejects:
  "parse_uri ''api.angler.com.ua'' = None"
  "parse_uri ''https://'' = None"
  "parse_uri ''https:api.angler.com.ua'' = None"
  "parse_uri ''1ttp://api.angler.com.ua'' = None"
  "parse_uri ''YOUR_WIFI_SSID'' = None"
  by (simp_all add: parse_uri_def is_alpha_def is_digit_def scheme_char_def
      reg_name_char_def path_char_def)

section \<open>The claims\<close>

text \<open>
  C1. Every declared constant has a non-empty, valid value of its declared type: each of
  the four string constants is initialised, with a string literal as its type asks, to a
  non-empty string, and each of the two timing constants to a positive integer.
\<close>

theorem constants_nonempty_valid:
  "\<exists>ssid password url token heartbeat timeout.
     WIFI_SSID = Some ssid \<and> ssid \<noteq> [] \<and>
     WIFI_PASSWORD = Some password \<and> password \<noteq> [] \<and>
     SERVER_URL = Some url \<and> url \<noteq> [] \<and>
     DEVICE_TOKEN = Some token \<and> token \<noteq> [] \<and>
     HEARTBEAT_INTERVAL = Some heartbeat \<and> 0 < unat heartbeat \<and>
     WIFI_TIMEOUT = Some timeout \<and> 0 < unat timeout"
  by (simp add: string_values timing_values)

text \<open>
  C2, as the specification states it: what the file exposes is the seven named constants
  and nothing else. The file also defines its include guard: the macro \<^verbatim>\<open>CONFIG_H\<close> is
  visible to every consumer after the inclusion, and it is none of the seven.
\<close>

theorem surface_has_include_guard:
  "''CONFIG_H'' \<in> set (defined_names config_unit) \<and>
   ''CONFIG_H'' \<notin> set [''WIFI_SSID'', ''WIFI_PASSWORD'', ''SERVER_URL'', ''DEVICE_TOKEN'',
      ''HEARTBEAT_INTERVAL'', ''WIFI_TIMEOUT'', ''DEBUG_SERIAL'']"
  by (simp add: defined_names_def macro_names_def object_names_def config_unit_eq)

text \<open>
  C2, amended: including the file defines exactly two macros, the include guard
  \<^verbatim>\<open>CONFIG_H\<close> with an empty replacement list and the flag \<^verbatim>\<open>DEBUG_SERIAL\<close> with the
  replacement list \<^verbatim>\<open>1\<close>, and exactly six objects: four of type \<^verbatim>\<open>const char*\<close> (the two
  network values, the endpoint and the device credential) and two of type
  \<^verbatim>\<open>const unsigned long\<close> (the timing values). Nothing else is defined.
\<close>

theorem surface_exact:
  "macro_names config_unit = [''CONFIG_H'', ''DEBUG_SERIAL''] \<and>
   macro_body config_unit ''CONFIG_H'' = Some [] \<and>
   macro_body config_unit ''DEBUG_SERIAL'' = Some [IntegerLiteral 1] \<and>
   object_names config_unit =
     [''WIFI_SSID'', ''WIFI_PASSWORD'', ''SERVER_URL'', ''DEVICE_TOKEN'',
      ''HEARTBEAT_INTERVAL'', ''WIFI_TIMEOUT''] \<and>
   names_of_type config_unit const_char_ptr =
     [''WIFI_SSID'', ''WIFI_PASSWORD'', ''SERVER_URL'', ''DEVICE_TOKEN''] \<and>
   names_of_type config_unit const_unsigned_long = [''HEARTBEAT_INTERVAL'', ''WIFI_TIMEOUT'']"
  by (simp add: macro_names_def macro_body_def object_names_def names_of_type_def
      config_unit_eq const_char_ptr_def const_unsigned_long_def)

text \<open>
  C3. The seven names of the data model are pairwise distinct; no name is defined twice
  by the file; each of the seven is defined exactly once, so none is missing; and a
  second inclusion of the file defines nothing again.
\<close>

theorem names_declared_once:
  "distinct [''WIFI_SSID'', ''WIFI_PASSWORD'', ''SERVER_URL'', ''DEVICE_TOKEN'',
      ''HEARTBEAT_INTERVAL'', ''WIFI_TIMEOUT'', ''DEBUG_SERIAL''] \<and>
   distinct (defined_names config_unit) \<and>
   map (count_list (defined_names config_unit))
     [''WIFI_SSID'', ''WIFI_PASSWORD'', ''SERVER_URL'', ''DEVICE_TOKEN'',
      ''HEARTBEAT_INTERVAL'', ''WIFI_TIMEOUT'', ''DEBUG_SERIAL''] = [1, 1, 1, 1, 1, 1, 1] \<and>
   (\<exists>u. config_unit = Inr u \<and> include_file config_h u = Inr u)"
proof -
  have names: "defined_names config_unit =
      [''CONFIG_H'', ''DEBUG_SERIAL'', ''WIFI_SSID'', ''WIFI_PASSWORD'', ''SERVER_URL'',
       ''DEVICE_TOKEN'', ''HEARTBEAT_INTERVAL'', ''WIFI_TIMEOUT'']"
    by (simp add: defined_names_def macro_names_def object_names_def config_unit_eq)
  obtain u where u: "config_unit = Inr u"
    using config_unit_eq by blast
  from include_twice [OF u] u have "\<exists>u. config_unit = Inr u \<and> include_file config_h u = Inr u"
    by blast
  then show ?thesis
    unfolding names by simp
qed

text \<open>
  C4. The value of each constant is fixed at its definition and never mutated: reading it
  in a program that includes the header yields the value it was defined with. The header
  writes \<^verbatim>\<open>const\<close> on all six objects. On the two timing constants the qualifier stands
  at the top of the type, and an assignment to them is rejected. On the four string names
  it qualifies the characters only, \<^verbatim>\<open>const char*\<close> where \<^verbatim>\<open>const char* const\<close> would fix
  the binding: the assignment \<^verbatim>\<open>WIFI_SSID = "other";\<close> is accepted, and the name then
  reads \<^verbatim>\<open>other\<close>, not the value it was defined with.
\<close>

theorem string_pointer_reassigned:
  "read_after [] ''WIFI_SSID'' = Some (StringValue ''YOUR_WIFI_SSID'') \<and>
   read_after [Assign ''WIFI_SSID'' (StringValue ''other'')] ''WIFI_SSID'' =
     Some (StringValue ''other'')"
  by (simp add: read_after_def read_def config_store_eq const_char_ptr_def)

text \<open>
  C5. No definition of the file is written in terms of another name: the initialiser of
  every object and the replacement list of every macro consist of literals only, so no
  line mentions an identifier on its right-hand side.
\<close>

theorem definitions_independent:
  "concat (map initialiser_identifiers config_h) = []"
  by (simp add: config_h_def)

text \<open>
  C6. The endpoint address is a well-formed URI with a scheme and a host: it parses into
  the scheme \<^verbatim>\<open>https\<close>, the host \<^verbatim>\<open>api.angler.com.ua\<close> and an empty path.
\<close>

theorem server_url_well_formed:
  "\<exists>url. SERVER_URL = Some url \<and>
     parse_uri url = Some (''https'', ''api.angler.com.ua'', [])"
  by (simp add: string_values parse_uri_def is_alpha_def is_digit_def scheme_char_def
      reg_name_char_def path_char_def)

text \<open>C7. The debug flag is a boolean-like integer: its value is 0 or 1.\<close>

theorem debug_flag_boolean:
  "DEBUG_SERIAL = Some 0 \<or> DEBUG_SERIAL = Some 1"
  by (simp add: debug_value)

text \<open>
  C8. The two timing constants are equal: the heartbeat period and the connection
  timeout are both 30000 milliseconds.
\<close>

theorem timing_constants_equal:
  "HEARTBEAT_INTERVAL = Some 30000 \<and> WIFI_TIMEOUT = Some 30000 \<and>
   HEARTBEAT_INTERVAL = WIFI_TIMEOUT"
  by (simp add: timing_values)

text \<open>
  C9. The three secret-bearing string constants are placeholders: the values of
  \<^verbatim>\<open>WIFI_SSID\<close>, \<^verbatim>\<open>WIFI_PASSWORD\<close> and \<^verbatim>\<open>DEVICE_TOKEN\<close> are \<^verbatim>\<open>YOUR_WIFI_SSID\<close>,
  \<^verbatim>\<open>YOUR_WIFI_PASSWORD\<close> and \<^verbatim>\<open>YOUR_DEVICE_TOKEN\<close>, each beginning with \<^verbatim>\<open>YOUR_\<close>.
\<close>

theorem secrets_are_placeholders:
  "\<exists>ssid password token.
     WIFI_SSID = Some ssid \<and> WIFI_PASSWORD = Some password \<and> DEVICE_TOKEN = Some token \<and>
     ssid = ''YOUR_WIFI_SSID'' \<and> password = ''YOUR_WIFI_PASSWORD'' \<and>
     token = ''YOUR_DEVICE_TOKEN'' \<and>
     prefix ''YOUR_'' ssid \<and> prefix ''YOUR_'' password \<and> prefix ''YOUR_'' token"
  by (simp add: string_values)

text \<open>
  C10. The service endpoint uses secure transport: the value of \<^verbatim>\<open>SERVER_URL\<close> begins
  with \<^verbatim>\<open>https://\<close>.
\<close>

theorem server_url_https:
  "\<exists>url. SERVER_URL = Some url \<and> prefix ''https://'' url"
  by (simp add: string_values)

end
